theory Spec2Isabelle
  imports Main "HOL-Library.Sublist"
begin

section \<open>The options record (types.ts, App.tsx)\<close>

text \<open>
  \<^verbatim>\<open>CustomizationOptions\<close> is an interface of eight string-valued fields. The
  union types of \<^verbatim>\<open>types.ts\<close> exist at compile time only: at run time every field
  holds a string, and \<^verbatim>\<open>handleOptionChange\<close> stores whatever string the change
  event carries (\<^verbatim>\<open>value as any\<close>). The fields are therefore strings, and the union
  types are kept as the value lists below and the predicate \<open>wellTyped\<close>.

  An options value is a JavaScript object, so it can carry own properties beyond the
  eight that the interface declares; the computed key of \<^verbatim>\<open>handleOptionChange\<close>
  is the one place of the program which can create one. They are kept in
  \<open>otherProps\<close>, which is empty in \<^verbatim>\<open>initialOptions\<close>.
\<close>

record CustomizationOptions =
  colorTheme :: string
  doors :: string
  windows :: string
  frontYard :: string
  landscaping :: string
  outdoorFeatures :: string
  roof :: string
  furniture :: string
  otherProps :: "string \<rightharpoonup> string"

definition initialOptions :: CustomizationOptions where
  "initialOptions = \<lparr>
     colorTheme = ''Tropical Light'',
     doors = ''Glass Sliding'',
     windows = ''Jalousie'',
     frontYard = ''Tropical Garden'',
     landscaping = ''None'',
     outdoorFeatures = ''None'',
     roof = ''Standard Metal Roof'',
     furniture = ''None'',
     otherProps = Map.empty \<rparr>"

text \<open>The union types of \<^verbatim>\<open>types.ts\<close>, in the order written there.\<close>

definition colorThemeValues :: "string list" where
  "colorThemeValues = [''Neutral Modern'', ''Warm Natural'', ''Dark Industrial'', ''Tropical Light'']"

definition doorsValues :: "string list" where
  "doorsValues = [''Narra Wood'', ''Steel Security'', ''Glass Sliding'', ''Double Swing Wood'']"

definition windowsValues :: "string list" where
  "windowsValues = [''Clear Glass Sliding'', ''Tinted Glass'', ''Jalousie'', ''Awning Windows'']"

definition frontYardValues :: "string list" where
  "frontYardValues =
     [''Tropical Garden'', ''Modern Tiled Patio'', ''Simple Bermuda Grass'', ''Gravel & Planters'']"

definition landscapingValues :: "string list" where
  "landscapingValues =
     [''None'', ''Minimalist Zen Garden'', ''Flowering Tropical Paradise'',
      ''Rock Garden with Cacti'', ''Vegetable Patch'']"

definition outdoorFeaturesValues :: "string list" where
  "outdoorFeaturesValues =
     [''None'', ''2-Seater Kape Table'', ''4-Seater Outdoor Dining'', ''Bamboo Bench'',
      ''Hammock (Duyan)'']"

definition roofValues :: "string list" where
  "roofValues = [''Standard Metal Roof'', ''Metal Roof with Solar Panels'', ''Clay Tile Roof'']"

definition furnitureValues :: "string list" where
  "furnitureValues =
     [''None'', ''Wicker Sofa Set'', ''Wooden Dining Table for 4'', ''Pair of Sun Loungers'']"

definition wellTyped :: "CustomizationOptions \<Rightarrow> bool" where
  "wellTyped options \<longleftrightarrow>
     colorTheme options \<in> set colorThemeValues \<and>
     doors options \<in> set doorsValues \<and>
     windows options \<in> set windowsValues \<and>
     frontYard options \<in> set frontYardValues \<and>
     landscaping options \<in> set landscapingValues \<and>
     outdoorFeatures options \<in> set outdoorFeaturesValues \<and>
     roof options \<in> set roofValues \<and>
     furniture options \<in> set furnitureValues"

section \<open>The prompt builder (App.tsx, buildPrompt)\<close>

text \<open>
  A template literal that spans several source lines is the text of those lines joined
  by a line feed; \<open>joinLines\<close> does the joining, so that each element below is one
  source line, in order. An interpolation \<^verbatim>\<open>'${options.f}'\<close> is written
  \<open>[CHR 0x27] @ f options\<close> followed by a literal that begins with the closing
  apostrophe (a string literal of Isabelle cannot end with an apostrophe).
\<close>

fun joinLines :: "string list \<Rightarrow> string" where
  "joinLines [] = []"
| "joinLines [l] = l"
| "joinLines (l # m # ls) = l @ CHR 0x0A # joinLines (m # ls)"

definition furniturePrompt :: "CustomizationOptions \<Rightarrow> string" where
  "furniturePrompt options =
    (if furniture options \<noteq> ''None'' then joinLines [
      '''',
      ''- **Furniture:** Add a '' @ [CHR 0x27] @ furniture options @ '''. Place it naturally within any visible front yard or patio area. The furniture must be weather-resistant, complement the overall design, and be appropriate for a tropical climate.''
    ] else '''')"

definition landscapingPrompt :: "CustomizationOptions \<Rightarrow> string" where
  "landscapingPrompt options =
    (if landscaping options \<noteq> ''None'' then joinLines [
      '''',
      ''  - **Landscaping Theme:** Within the front yard, introduce a '' @ [CHR 0x27] @ landscaping options @ ''' theme.'',
      ''    - 'Minimalist Zen Garden': Use raked white sand, a few carefully placed boulders, and perhaps a single bonsai-style tree.'',
      ''    - 'Flowering Tropical Paradise': Add an abundance of colorful, local flowering plants like hibiscus, bougainvillea, and birds of paradise.'',
      ''    - 'Rock Garden with Cacti': A dry-style garden with various types of rocks, pebbles, and succulents or cacti suitable for a tropical climate.'',
      ''    - 'Vegetable Patch': Create a neat, organized section with raised garden beds for growing vegetables.''
    ] else '''')"

definition buildPrompt :: "CustomizationOptions \<Rightarrow> string" where
  "buildPrompt options = joinLines [
      ''You are an expert architectural visualizer specializing in tropical design for the Philippines. Your task is to take the provided 3D render of an L-shaped modular home and place it into a photorealistic scene, modifying it according to the specifications below. The final image should be high-resolution and perfectly suited for a humid, tropical climate, maintaining the original structure's shape, perspective, and camera angle.'',
      '''',
      ''**Scene & Setting:** Create a lush, tropical environment in the Philippines to serve as the background and surroundings for the house.'',
      '''',
      ''**Lighting & Realism:** The scene must be rendered with hyper-realistic lighting appropriate for the Philippines. This includes soft, diffused sunlight (like a bright, slightly overcast day) that casts gentle shadows. Incorporate subtle ambient occlusion to give the structure and surrounding objects a sense of depth and grounding.'',
      '''',
      ''**Material & Texture Details:**'',
      ''- **Wood:** When 'Narra Wood' or other wood accents are specified, render them with a rich, visible grain and a semi-gloss finish, showcasing the natural beauty of treated tropical hardwood.'',
      ''- **Metal:** Metal roofs and trims should exhibit a subtle, realistic sheen that catches the light, indicating their material quality without being overly glossy.'',
      ''- **Glass:** All glass surfaces (windows, sliding doors) must be highly reflective, clearly mirroring the lush tropical surroundings, clouds, and sky to enhance realism.'',
      '''',
      ''**Modifications to the House:**'',
      '''',
      ''- **Color & Style:** Apply the '' @ [CHR 0x27] @ colorTheme options @ ''' theme to the building.'',
      ''  - 'Neutral Modern': Use light gray and white tones for walls and trims to reflect heat.'',
      ''  - 'Warm Natural': Use beige, cream, and local tropical wood accents (like Narra or Mahogany).'',
      ''  - 'Dark Industrial': Use charcoal gray or black with matte black metal trims, often used for modern tropical homes.'',
      ''  - 'Tropical Light': Use off-white or very light pastel colors with natural wood accents, creating an airy feel.'',
      '''',
      ''- **Doors:** Change the doors to '' @ [CHR 0x27] @ doors options @ '''. They must be suitable for tropical weather (durable against humidity and heat).'',
      ''  - 'Narra Wood': A classic, beautiful, and durable Filipino hardwood door.'',
      ''  - 'Steel Security': A practical, strong door for security.'',
      ''  - 'Glass Sliding': Large sliding glass doors to maximize light and views, with strong frames.'',
      ''  - 'Double Swing Wood': A grand entrance with two swinging wooden doors.'',
      '''',
      ''- **Windows:** Change the windows to '' @ [CHR 0x27] @ windows options @ '''. They should promote ventilation and natural light.'',
      ''  - 'Clear Glass Sliding': Standard sliding windows.'',
      ''  - 'Tinted Glass': Darkened glass to reduce solar glare and heat.'',
      ''  - 'Jalousie': The classic Filipino window with glass slats for maximum airflow, even during light rain.'',
      ''  - 'Awning Windows': Windows hinged at the top, allowing ventilation while providing shelter from rain.'',
      '''',
      ''- **Front Yard:** Create a front yard in a '' @ [CHR 0x27] @ frontYard options @ ''' style.'',
      ''  - 'Tropical Garden': Lush greenery with local Filipino plants like plumeria (kalachuchi), hibiscus (gumamela), palms, and broad-leafed plants.'',
      ''  - 'Modern Tiled Patio': Use non-slip ceramic or concrete tiles for a clean, modern outdoor living space, perhaps with a small patch of grass.'',
      ''  - 'Simple Bermuda Grass': A clean, manicured lawn.'',
      ''  - 'Gravel & Planters': Use of decorative gravel (white or gray) with large concrete planters for a low-maintenance, modern look.'' @ landscapingPrompt options,
      '''',
      ''- **Roof:** Modify the roof to be a '' @ [CHR 0x27] @ roof options @ '''.'',
      ''  - 'Standard Metal Roof': A typical long-span corrugated metal roof, common in the Philippines.'',
      ''  - 'Metal Roof with Solar Panels': Add sleek, modern solar panels to the metal roof.'',
      ''  - 'Clay Tile Roof': Add a classic Spanish-style clay tile (tegula) roof, which helps keep the interior cool.'',
      '''',
      ''- **Outdoor Features:** Add the following feature: '' @ [CHR 0x27] @ outdoorFeatures options @ '''.'',
      ''  - If not 'None', place it naturally within the scene.'',
      ''  - '2-Seater Kape Table': A small cafe table set for two, for enjoying coffee outdoors.'',
      ''  - '4-Seater Outdoor Dining': A larger table set for four.'',
      ''  - 'Bamboo Bench': A simple, locally-styled bamboo bench.'',
      ''  - 'Hammock (Duyan)': A traditional Filipino hammock.'' @ furniturePrompt options,
      '''',
      ''**Important Rules:**'',
      ''1.  ONLY modify the aspects of the house listed above. Maintain the L-shape.'',
      ''2.  The result must be a single, photorealistic image.'',
      ''3.  Do not add any text, labels, or watermarks.'',
      '''',
      ''The output should ONLY be the final, modified image.''
    ]"

section \<open>The key guard and the option update (App.tsx)\<close>

text \<open>
  \<^verbatim>\<open>isCustomizationKey(key)\<close> is \<^verbatim>\<open>key in initialOptions\<close>. The operator
  \<^verbatim>\<open>in\<close> holds for the own properties of the object and for those it inherits;
  \<^verbatim>\<open>initialOptions\<close> is an object literal, so it inherits from
  \<^verbatim>\<open>Object.prototype\<close>, whose property names (ECMAScript, Properties of the Object
  Prototype Object) are listed in \<open>objectPrototypeKeys\<close>.
\<close>

definition fieldNames :: "string list" where
  "fieldNames = [''colorTheme'', ''doors'', ''windows'', ''frontYard'', ''landscaping'',
     ''outdoorFeatures'', ''roof'', ''furniture'']"

definition objectPrototypeKeys :: "string list" where
  "objectPrototypeKeys = [''constructor'', ''hasOwnProperty'', ''isPrototypeOf'',
     ''propertyIsEnumerable'', ''toLocaleString'', ''toString'', ''valueOf'', ''__proto__'',
     ''__defineGetter__'', ''__defineSetter__'', ''__lookupGetter__'', ''__lookupSetter__'']"

definition hasOwnProperty :: "CustomizationOptions \<Rightarrow> string \<Rightarrow> bool" where
  "hasOwnProperty obj key \<longleftrightarrow>
     key \<in> set fieldNames \<or> (case otherProps obj key of None \<Rightarrow> False | Some _ \<Rightarrow> True)"

definition hasProperty :: "CustomizationOptions \<Rightarrow> string \<Rightarrow> bool" where
  "hasProperty obj key \<longleftrightarrow> hasOwnProperty obj key \<or> key \<in> set objectPrototypeKeys"

definition isCustomizationKey :: "string \<Rightarrow> bool" where
  "isCustomizationKey key = hasProperty initialOptions key"

text \<open>
  \<^verbatim>\<open>{ ...prev, [name]: value }\<close>: a copy of the own properties of \<^verbatim>\<open>prev\<close> in
  which the own property \<^verbatim>\<open>name\<close> holds \<^verbatim>\<open>value\<close>. A computed key always
  defines an own property, also when it is \<^verbatim>\<open>__proto__\<close>.
\<close>

definition spreadWith :: "CustomizationOptions \<Rightarrow> string \<Rightarrow> string \<Rightarrow> CustomizationOptions" where
  "spreadWith prev name value =
    (if name = ''colorTheme'' then prev\<lparr>colorTheme := value\<rparr>
     else if name = ''doors'' then prev\<lparr>doors := value\<rparr>
     else if name = ''windows'' then prev\<lparr>windows := value\<rparr>
     else if name = ''frontYard'' then prev\<lparr>frontYard := value\<rparr>
     else if name = ''landscaping'' then prev\<lparr>landscaping := value\<rparr>
     else if name = ''outdoorFeatures'' then prev\<lparr>outdoorFeatures := value\<rparr>
     else if name = ''roof'' then prev\<lparr>roof := value\<rparr>
     else if name = ''furniture'' then prev\<lparr>furniture := value\<rparr>
     else prev\<lparr>otherProps := (otherProps prev)(name \<mapsto> value)\<rparr>)"

section \<open>The generation service (services/geminiService.ts)\<close>

text \<open>
  What a rejected promise or a \<^verbatim>\<open>throw\<close> carries: an \<^verbatim>\<open>Error\<close> (a
  \<^verbatim>\<open>RangeError\<close> is one) with its message, or a value that is no instance of
  \<^verbatim>\<open>Error\<close> (the event with which the file reader rejects, for one), kept as the
  string that \<^verbatim>\<open>String(value)\<close> gives. The handlers tell the two apart.
\<close>

datatype thrown = Error string | NonError string

text \<open>
  Of a \<^verbatim>\<open>File\<close> the service observes only what \<^verbatim>\<open>FileReader.readAsDataURL\<close>
  yields for it: a data URL (\<open>Some\<close>), or the reader's error event (\<open>None\<close>).
\<close>

record File =
  fileName :: string
  fileType :: string
  readAsDataURL :: "string option"

text \<open>
  The parts of a request and of a response, with the optional fields of the SDK's types
  (\<^verbatim>\<open>Part\<close>, \<^verbatim>\<open>Blob\<close>, \<^verbatim>\<open>Content\<close>, \<^verbatim>\<open>Candidate\<close>,
  \<^verbatim>\<open>GenerateContentResponse\<close>); an absent field is \<open>None\<close>.
\<close>

record Blob =
  mimeType :: "string option"
  data :: "string option"

record Part =
  inlineData :: "Blob option"
  text' :: "string option"

record GenerateContentParameters =
  model :: string
  contents :: "Part list"
  responseModalities :: "string list"

record Content =
  parts :: "Part list option"

record Candidate =
  content :: "Content option"

record GenerateContentResponse =
  candidates :: "Candidate list option"

text \<open>
  The external generator, \<^verbatim>\<open>ai.models.generateContent\<close>: the outcome of the call
  issued at a given index of one batch, for the request it carries. The index is an
  argument because the generator may answer equal requests differently. A call that
  rejects comes with the time at which it rejects: \<^verbatim>\<open>Promise.all\<close> surfaces the
  rejection that happens first.
\<close>

type_synonym GenAI =
  "nat \<Rightarrow> GenerateContentParameters \<Rightarrow> (thrown \<times> nat) + GenerateContentResponse"

text \<open>
  \<^verbatim>\<open>new GoogleGenAI({ apiKey: process.env.API_KEY! })\<close>: the client, or what the
  constructor throws. The SDK is not part of the repository, so the outcome of the
  construction is an argument of the two service functions.
\<close>

type_synonym Client = "thrown + GenAI"

subsection \<open>fileToPart\<close>

text \<open>\<^verbatim>\<open>String.prototype.split\<close> with a one-character separator.\<close>

fun split :: "char \<Rightarrow> string \<Rightarrow> string list" where
  "split sep [] = [[]]"
| "split sep (c # cs) =
    (if c = sep then [] # split sep cs
     else (case split sep cs of [] \<Rightarrow> [[c]] | w # ws \<Rightarrow> (c # w) # ws))"

text \<open>
  \<^verbatim>\<open>arr[0].match(/:(.*?);/)\<close>, the captured group of the leftmost match.
  \<open>lazyUntilSemicolon\<close> is \<^verbatim>\<open>(.*?);\<close> tried at one position: the shortest run of
  characters other than line terminators that a semicolon follows. Of the line
  terminators, line feed and carriage return are characters of the 8-bit type
  \<^typ>\<open>char\<close>; U+2028 and U+2029 are not.
\<close>

fun lazyUntilSemicolon :: "string \<Rightarrow> string option" where
  "lazyUntilSemicolon [] = None"
| "lazyUntilSemicolon (c # cs) =
    (if c = CHR '';'' then Some []
     else if c = CHR 0x0A \<or> c = CHR 0x0D then None
     else map_option (Cons c) (lazyUntilSemicolon cs))"

fun mimeMatch :: "string \<Rightarrow> string option" where
  "mimeMatch [] = None"
| "mimeMatch (c # cs) =
    (if c = CHR '':'' then
       (case lazyUntilSemicolon cs of Some g \<Rightarrow> Some g | None \<Rightarrow> mimeMatch cs)
     else mimeMatch cs)"

definition fileToPart :: "File \<Rightarrow> thrown + Part" where
  "fileToPart file =
    (case readAsDataURL file of
       None \<Rightarrow> Inl (NonError ''[object ProgressEvent]'')
     | Some dataUrl \<Rightarrow>
        (let arr = split CHR '','' dataUrl in
         if length arr < 2 then Inl (Error ''Invalid data URL'')
         else (case mimeMatch (arr ! 0) of
                 None \<Rightarrow> Inl (Error ''Could not parse MIME type from data URL'')
               | Some g \<Rightarrow>
                  if g = [] then Inl (Error ''Could not parse MIME type from data URL'')
                  else Inr \<lparr>inlineData = Some \<lparr>mimeType = Some g, data = Some (arr ! 1)\<rparr>,
                            text' = None\<rparr>)))"

subsection \<open>generateHouseImage\<close>

text \<open>The decimal numeral of \<^verbatim>\<open>${index + 1}\<close>.\<close>

fun decimal :: "nat \<Rightarrow> string" where
  "decimal n =
    (if n < 10 then [''0123456789'' ! n]
     else decimal (n div 10) @ [''0123456789'' ! (n mod 10)])"

declare decimal.simps [simp del]

text \<open>An interpolated value that may be \<^verbatim>\<open>undefined\<close>.\<close>

definition jsString :: "string option \<Rightarrow> string" where
  "jsString v = (case v of None \<Rightarrow> ''undefined'' | Some s \<Rightarrow> s)"

text \<open>
  \<^verbatim>\<open>response.candidates?.[0]?.content?.parts?.find(part => part.inlineData)\<close>
\<close>

definition imagePartFromResponse :: "GenerateContentResponse \<Rightarrow> Part option" where
  "imagePartFromResponse response =
    (case candidates response of
       None \<Rightarrow> None
     | Some [] \<Rightarrow> None
     | Some (candidate # _) \<Rightarrow>
        (case content candidate of
           None \<Rightarrow> None
         | Some c \<Rightarrow>
            (case parts c of
               None \<Rightarrow> None
             | Some ps \<Rightarrow> find (\<lambda>part. inlineData part \<noteq> None) ps)))"

text \<open>
  The data URI of one response, when it has an image part
  (\<^verbatim>\<open>if (imagePartFromResponse?.inlineData)\<close>).
\<close>

definition imageUrlOf :: "GenerateContentResponse \<Rightarrow> string option" where
  "imageUrlOf response =
    (case imagePartFromResponse response of
       None \<Rightarrow> None
     | Some part \<Rightarrow>
        (case inlineData part of
           None \<Rightarrow> None
         | Some blob \<Rightarrow> Some (''data:'' @ jsString (mimeType blob) @ '';base64,'' @ jsString (data blob))))"

text \<open>
  \<^verbatim>\<open>responses.map((response, index) => ...)\<close>, from the response at \<open>index\<close> on: the
  callback throws at the first response without an image part, which ends the map.
\<close>

fun finalImageUrlsFrom :: "nat \<Rightarrow> GenerateContentResponse list \<Rightarrow> thrown + string list" where
  "finalImageUrlsFrom index [] = Inr []"
| "finalImageUrlsFrom index (response # rest) =
    (case imageUrlOf response of
       Some url \<Rightarrow>
        (case finalImageUrlsFrom (index + 1) rest of
           Inl e \<Rightarrow> Inl e
         | Inr urls \<Rightarrow> Inr (url # urls))
     | None \<Rightarrow>
        Inl (Error (''The AI model did not return an image for variation '' @ decimal (index + 1) @ ''.'')))"

text \<open>
  \<^verbatim>\<open>Promise.all\<close>: the values in the order of the promises when all of them fulfil;
  otherwise the reason of the rejection that happens first (of two rejections at the same
  time, the one of lower index).
\<close>

fun firstRejection :: "((thrown \<times> nat) + 'a) list \<Rightarrow> (thrown \<times> nat) option" where
  "firstRejection [] = None"
| "firstRejection (Inr v # ps) = firstRejection ps"
| "firstRejection (Inl (e, t) # ps) =
    (case firstRejection ps of
       None \<Rightarrow> Some (e, t)
     | Some (e', t') \<Rightarrow> if t' < t then Some (e', t') else Some (e, t))"

fun fulfilled :: "('e + 'a) list \<Rightarrow> 'a list" where
  "fulfilled [] = []"
| "fulfilled (Inr v # ps) = v # fulfilled ps"
| "fulfilled (Inl e # ps) = fulfilled ps"

definition promiseAll :: "((thrown \<times> nat) + 'a) list \<Rightarrow> thrown + 'a list" where
  "promiseAll ps =
    (case firstRejection ps of
       Some (e, t) \<Rightarrow> Inl e
     | None \<Rightarrow> Inr (fulfilled ps))"

text \<open>
  The request built in the callback of \<^verbatim>\<open>Array.from({ length: variationCount }).map\<close>;
  it does not depend on the index.
\<close>

definition variationRequest :: "Part \<Rightarrow> string \<Rightarrow> int \<Rightarrow> GenerateContentParameters" where
  "variationRequest baseImagePart prompt variationCount =
    (let variationPrompt =
       (if variationCount > 1
        then prompt @ ''\<newline>\<newline>**Variation Instruction:** Generate a unique, creative variation based on the above criteria. Show a different interpretation.''
        else prompt);
         textPart = \<lparr>inlineData = None, text' = Some variationPrompt\<rparr>
     in \<lparr>model = ''gemini-2.5-flash-image'',
         contents = [baseImagePart, textPart],
         responseModalities = [''IMAGE'']\<rparr>)"

text \<open>
  The result is the list of requests issued, in the order of issue, and the outcome: the
  thrown value, or \<^verbatim>\<open>finalImageUrls\<close>. The steps are those of the source, in its
  order: the client is constructed, the base image is read, the array of the calls is
  made, the calls are awaited, the image of each response is extracted, the count is
  checked. The variation count is an integer. \<^verbatim>\<open>Array.from({ length: n })\<close> has no
  element for \<open>n \<le> 0\<close> and \<open>n\<close> elements for \<open>0 < n < 2 ^ 32\<close>; from \<open>2 ^ 32\<close> on it
  throws a \<^verbatim>\<open>RangeError\<close> (whose message, here that of V8, is the engine's), before any
  call is issued. Console output is left out.
\<close>

definition generateHouseImage ::
  "Client \<Rightarrow> File \<Rightarrow> string \<Rightarrow> int \<Rightarrow> GenerateContentParameters list \<times> (thrown + string list)" where
  "generateHouseImage client baseImage prompt variationCount =
    (case client of
       Inl e \<Rightarrow> ([], Inl e)
     | Inr ai \<Rightarrow>
    (case fileToPart baseImage of
       Inl e \<Rightarrow> ([], Inl e)
     | Inr baseImagePart \<Rightarrow>
        if variationCount \<ge> 4294967296 then ([], Inl (Error ''Invalid array length''))
        else
        (let issued = map (\<lambda>index. variationRequest baseImagePart prompt variationCount)
                          [0..<nat variationCount];
             generationPromises = map (\<lambda>index. ai index (issued ! index)) [0..<length issued]
         in (issued,
             case promiseAll generationPromises of
               Inl e \<Rightarrow> Inl e
             | Inr responses \<Rightarrow>
                (case finalImageUrlsFrom 0 responses of
                   Inl e \<Rightarrow> Inl e
                 | Inr finalImageUrls \<Rightarrow>
                    if int (length finalImageUrls) \<noteq> variationCount
                    then Inl (Error ''The number of generated images did not match the requested count.'')
                    else Inr finalImageUrls)))))"

subsection \<open>generateBaseModelViews\<close>

text \<open>One call with a fixed prompt; the result is the request issued, if any, and the outcome.\<close>

definition baseViewsPrompt :: string where
  "baseViewsPrompt = joinLines [
      ''You are an expert architectural visualizer. Based on the provided image of an L-shaped modular home, create a single, cohesive image displaying photorealistic renders of the structure from multiple key angles: front, rear, and both sides. Arrange these four views in a clean 2x2 grid.'',
      '''',
      ''**Style & Climate:** The design should be a modern tropical style suitable for the Philippines.'',
      '''',
      ''**Rendering & Materials:**'',
      ''- **Lighting:** Use realistic lighting for a bright, slightly overcast tropical day to produce soft shadows and avoid harsh glare. Include subtle ambient occlusion for depth.'',
      ''- **Materials:** Render materials with realistic properties. Glass surfaces must be clearly reflective, and metal elements should have a slight sheen.'',
      ''- **Background:** Each view must have a simple, neutral gray background.'',
      '''',
      ''**Output:** The final output must be ONLY the generated 2x2 grid image, with no text or labels.''
    ]"

definition generateBaseModelViews ::
  "Client \<Rightarrow> File \<Rightarrow> GenerateContentParameters list \<times> (thrown + string)" where
  "generateBaseModelViews client baseImage =
    (case client of
       Inl e \<Rightarrow> ([], Inl e)
     | Inr ai \<Rightarrow>
    (case fileToPart baseImage of
       Inl e \<Rightarrow> ([], Inl e)
     | Inr baseImagePart \<Rightarrow>
        (let textPart = \<lparr>inlineData = None, text' = Some baseViewsPrompt\<rparr>;
             request = \<lparr>model = ''gemini-2.5-flash-image'',
                        contents = [baseImagePart, textPart],
                        responseModalities = [''IMAGE'']\<rparr>
         in ([request],
             case ai 0 request of
               Inl (e, t) \<Rightarrow> Inl e
             | Inr response \<Rightarrow>
                (case imageUrlOf response of
                   Some finalImageUrl \<Rightarrow> Inr finalImageUrl
                 | None \<Rightarrow>
                    Inl (Error ''The AI model did not return an image for the base model views.''))))))"

section \<open>The component state and its handlers (App.tsx)\<close>

record AppState =
  options :: CustomizationOptions
  budget :: int
  baseImageFile :: "File option"
  baseImageUrl :: string
  generatedImageUrls :: "string list"
  numberOfVariations :: int
  isLoading :: bool
  error :: "string option"

definition initialState :: AppState where
  "initialState = \<lparr>
     options = initialOptions,
     budget = 350000,
     baseImageFile = None,
     baseImageUrl = '''',
     generatedImageUrls = [],
     numberOfVariations = 1,
     isLoading = False,
     error = None \<rparr>"

text \<open>
  What a handler does outside the state: the generator requests it issues and the object
  URLs it revokes.
\<close>

record Effects =
  requests :: "GenerateContentParameters list"
  revoked :: "string list"

definition setBudget :: "int \<Rightarrow> AppState \<Rightarrow> AppState" where
  "setBudget b s = s\<lparr>budget := b\<rparr>"

definition handleOptionChange :: "string \<Rightarrow> string \<Rightarrow> AppState \<Rightarrow> AppState" where
  "handleOptionChange name value s =
    (if isCustomizationKey name then s\<lparr>options := spreadWith (options s) name value\<rparr> else s)"

definition setNumberOfVariations :: "int \<Rightarrow> AppState \<Rightarrow> AppState" where
  "setNumberOfVariations n s = s\<lparr>numberOfVariations := n\<rparr>"

text \<open>\<^verbatim>\<open>err instanceof Error ? err.message : 'An unknown error occurred.'\<close>\<close>

definition errorMessage :: "thrown \<Rightarrow> string" where
  "errorMessage err =
    (case err of Error message \<Rightarrow> message | NonError _ \<Rightarrow> ''An unknown error occurred.'')"

definition handleGenerate :: "Client \<Rightarrow> AppState \<Rightarrow> Effects \<times> AppState" where
  "handleGenerate client s =
    (case baseImageFile s of
       None \<Rightarrow>
        (\<lparr>requests = [], revoked = []\<rparr>,
         s\<lparr>error := Some ''Base image is not loaded. Cannot generate a new design.''\<rparr>)
     | Some file \<Rightarrow>
        (let s1 = s\<lparr>isLoading := True, error := None\<rparr>;
             prompt = buildPrompt (options s);
             (issued, outcome) = generateHouseImage client file prompt (numberOfVariations s);
             effects = \<lparr>requests = issued, revoked = generatedImageUrls s\<rparr>
         in (case outcome of
               Inr finalImageUrls \<Rightarrow>
                (effects, s1\<lparr>generatedImageUrls := finalImageUrls, isLoading := False\<rparr>)
             | Inl err \<Rightarrow>
                (effects,
                 s1\<lparr>error := Some (''Failed to generate the image. '' @ errorMessage err),
                    generatedImageUrls := [],
                    isLoading := False\<rparr>))))"

definition handleGenerateBaseViews :: "Client \<Rightarrow> AppState \<Rightarrow> Effects \<times> AppState" where
  "handleGenerateBaseViews client s =
    (case baseImageFile s of
       None \<Rightarrow>
        (\<lparr>requests = [], revoked = []\<rparr>,
         s\<lparr>error := Some ''Base image is not loaded. Cannot generate views.''\<rparr>)
     | Some file \<Rightarrow>
        (let s1 = s\<lparr>isLoading := True, error := None\<rparr>;
             (issued, outcome) = generateBaseModelViews client file;
             effects = \<lparr>requests = issued, revoked = generatedImageUrls s\<rparr>
         in (case outcome of
               Inr finalImageUrl \<Rightarrow>
                (effects, s1\<lparr>generatedImageUrls := [finalImageUrl], isLoading := False\<rparr>)
             | Inl err \<Rightarrow>
                (effects,
                 s1\<lparr>error := Some (''Failed to generate base model views. '' @ errorMessage err),
                    generatedImageUrls := [],
                    isLoading := False\<rparr>))))"

definition handleReset :: "AppState \<Rightarrow> Effects \<times> AppState" where
  "handleReset s =
    (\<lparr>requests = [], revoked = generatedImageUrls s\<rparr>,
     s\<lparr>generatedImageUrls := [], options := initialOptions, error := None\<rparr>)"

subsection \<open>The effect that fetches the base image\<close>

text \<open>
  What the effect uses of the browser: \<^verbatim>\<open>fetch\<close>, whose promise rejects or gives a
  response with its \<^verbatim>\<open>ok\<close> flag, its status and the outcome of \<^verbatim>\<open>blob()\<close>, and
  \<^verbatim>\<open>URL.createObjectURL\<close>. Of a blob the program observes its type and, once it is
  wrapped in a \<^verbatim>\<open>File\<close> of some type, what a file reader yields for that file. The
  type handed to \<^verbatim>\<open>new File\<close> is the type of the blob or one of two constants, so
  the constructor keeps it as it is.
\<close>

record FetchedBlob =
  blobType :: string
  readAs :: "string \<Rightarrow> string option"

record FetchResponse =
  ok :: bool
  status :: nat
  blob :: "thrown + FetchedBlob"

record Browser =
  fetch :: "string \<Rightarrow> thrown + FetchResponse"
  createObjectURL :: "File \<Rightarrow> string"

definition pathsToTry :: "string list" where
  "pathsToTry = [''/prefab.png'', ''/image.png'', ''/image-0.png'']"

text \<open>
  The loop over the paths: \<open>Inr (Some (response, successfulPath))\<close> at the first response
  that is \<^verbatim>\<open>ok\<close>, \<open>Inr None\<close> when every path gave 404, and \<open>Inl\<close> what the
  \<^verbatim>\<open>catch\<close> of the loop receives: a rejection of \<^verbatim>\<open>fetch\<close>, or the error thrown
  for a status other than 404.
\<close>

fun tryPaths ::
  "(string \<Rightarrow> thrown + FetchResponse) \<Rightarrow> string list \<Rightarrow> thrown + (FetchResponse \<times> string) option" where
  "tryPaths fetcher [] = Inr None"
| "tryPaths fetcher (path # rest) =
    (case fetcher path of
       Inl err \<Rightarrow> Inl err
     | Inr res \<Rightarrow>
        if ok res then Inr (Some (res, path))
        else if status res \<noteq> 404
        then Inl (Error (''Server responded with status: '' @ decimal (status res)))
        else tryPaths fetcher rest)"

text \<open>\<^verbatim>\<open>err instanceof Error ? err.message : String(err)\<close>\<close>

definition messageOrString :: "thrown \<Rightarrow> string" where
  "messageOrString err = (case err of Error message \<Rightarrow> message | NonError str \<Rightarrow> str)"

text \<open>
  \<^verbatim>\<open>toLowerCase\<close> on the letters of ASCII, and the last of the pieces that
  \<^verbatim>\<open>split\<close> gives: with the separator \<^verbatim>\<open>/\<close> it is
  \<^verbatim>\<open>path.substring(path.lastIndexOf('/') + 1)\<close>, with \<^verbatim>\<open>.\<close> it is
  \<^verbatim>\<open>filename.split('.').pop()\<close>.
\<close>

definition toLowerCase :: "string \<Rightarrow> string" where
  "toLowerCase str =
    map (\<lambda>c. let n = (of_char c :: nat) in if 65 \<le> n \<and> n \<le> 90 then char_of (n + 32) else c) str"

definition lastPiece :: "char \<Rightarrow> string \<Rightarrow> string" where
  "lastPiece sep str = (case rev (split sep str) of [] \<Rightarrow> [] | piece # _ \<Rightarrow> piece)"

definition fetchBaseImage :: "Browser \<Rightarrow> AppState \<Rightarrow> AppState" where
  "fetchBaseImage browser s =
    (let s1 = s\<lparr>isLoading := True, error := None\<rparr>;
         notFound = s1\<lparr>error := Some ''Failed to load the base house image. Tried /prefab.png, /image.png and /image-0.png, but they were not found. Please ensure an image is included in the prompt.'',
                       isLoading := False\<rparr>
     in case tryPaths (fetch browser) pathsToTry of
          Inl err \<Rightarrow>
           s1\<lparr>error := Some (''Failed to fetch base image. '' @ messageOrString err),
              isLoading := False\<rparr>
        | Inr None \<Rightarrow> notFound
        | Inr (Some (response, successfulPath)) \<Rightarrow>
           if successfulPath = [] then notFound
           else
            (case blob response of
               Inl err \<Rightarrow>
                s1\<lparr>error := Some (''Failed to process the loaded base image. '' @ messageOrString err),
                   isLoading := False\<rparr>
             | Inr b \<Rightarrow>
                (let filename = lastPiece CHR ''/'' successfulPath;
                     extension = toLowerCase (lastPiece CHR ''.'' filename);
                     mimeType =
                       (if blobType b = [] \<or> blobType b = ''application/octet-stream''
                        then (if extension = ''png'' then ''image/png''
                              else if extension = ''jpg'' \<or> extension = ''jpeg'' then ''image/jpeg''
                              else blobType b)
                        else blobType b);
                     file = \<lparr>fileName = filename, fileType = mimeType,
                             readAsDataURL = readAs b mimeType\<rparr>;
                     objectUrl = createObjectURL browser file
                 in s1\<lparr>baseImageFile := Some file, baseImageUrl := objectUrl, isLoading := False\<rparr>)))"

subsection \<open>Runs of the component\<close>

text \<open>
  The events that change the state: the effect that runs when the component is mounted,
  with the browser it meets, the change of a select or of the budget slider, and the three
  buttons, the two that generate with the client their service function constructs. Each
  handler is one step (\<^verbatim>\<open>handleDownloadImage\<close> writes no state and is no event). A run
  starts in the initial state.
\<close>

datatype event =
    Mount Browser
  | OptionChange string string
  | BudgetChange int
  | VariationsChange int
  | Generate Client
  | GenerateBaseViews Client
  | Reset

fun step :: "event \<Rightarrow> AppState \<Rightarrow> AppState" where
  "step (Mount browser) s = fetchBaseImage browser s"
| "step (OptionChange name value) s = handleOptionChange name value s"
| "step (BudgetChange b) s = setBudget b s"
| "step (VariationsChange n) s = setNumberOfVariations n s"
| "step (Generate client) s = snd (handleGenerate client s)"
| "step (GenerateBaseViews client) s = snd (handleGenerateBaseViews client s)"
| "step Reset s = snd (handleReset s)"

definition run :: "event list \<Rightarrow> AppState" where
  "run events = foldl (\<lambda>s e. step e s) initialState events"

section \<open>Sample inputs\<close>

text \<open>
  Concrete inputs at which the statements below are exercised: a base image as the file
  reader presents it, responses with and without an image part, a generator that answers
  every call with an image, one whose second answer carries text only, an options record
  with a landscaping theme and furniture, a browser that serves the base image at the
  first path, and a run in which the image is loaded and three variations are generated.
\<close>

definition sampleFile :: File where
  "sampleFile = \<lparr>fileName = ''prefab.png'', fileType = ''image/png'',
     readAsDataURL = Some ''data:image/png;base64,iVBORw0KGgo=''\<rparr>"

definition samplePart :: Part where
  "samplePart = \<lparr>inlineData = Some \<lparr>mimeType = Some ''image/png'', data = Some ''iVBORw0KGgo=''\<rparr>,
     text' = None\<rparr>"

definition imageResponse :: "string \<Rightarrow> GenerateContentResponse" where
  "imageResponse d = \<lparr>candidates = Some [\<lparr>content = Some \<lparr>parts = Some
     [\<lparr>inlineData = None, text' = Some ''Here is the design.''\<rparr>,
      \<lparr>inlineData = Some \<lparr>mimeType = Some ''image/png'', data = Some d\<rparr>, text' = None\<rparr>]\<rparr>\<rparr>]\<rparr>"

definition textOnlyResponse :: GenerateContentResponse where
  "textOnlyResponse = \<lparr>candidates = Some [\<lparr>content = Some \<lparr>parts = Some
     [\<lparr>inlineData = None, text' = Some ''I cannot produce this image.''\<rparr>]\<rparr>\<rparr>]\<rparr>"

definition sampleResponses :: "nat \<Rightarrow> GenerateContentResponse" where
  "sampleResponses i = imageResponse (if i = 0 then ''AAAA'' else if i = 1 then ''BBBB'' else ''CCCC'')"

definition sampleAi :: GenAI where
  "sampleAi i request = Inr (sampleResponses i)"

definition refusingAi :: GenAI where
  "refusingAi i request = Inr (if i = 1 then textOnlyResponse else sampleResponses i)"

definition sampleIssued :: "GenerateContentParameters list" where
  "sampleIssued = replicate 3
     \<lparr>model = ''gemini-2.5-flash-image'',
      contents = [samplePart, \<lparr>inlineData = None, text' = Some ''A house\<newline>\<newline>**Variation Instruction:** Generate a unique, creative variation based on the above criteria. Show a different interpretation.''\<rparr>],
      responseModalities = [''IMAGE'']\<rparr>"

definition sampleUrls :: "string list" where
  "sampleUrls = [''data:image/png;base64,AAAA'', ''data:image/png;base64,BBBB'',
     ''data:image/png;base64,CCCC'']"

definition gardenOptions :: CustomizationOptions where
  "gardenOptions = initialOptions\<lparr>landscaping := ''Vegetable Patch'', furniture := ''Wicker Sofa Set''\<rparr>"

definition sampleBrowser :: Browser where
  "sampleBrowser = \<lparr>
     fetch = (\<lambda>path.
       if path = ''/prefab.png''
       then Inr \<lparr>ok = True, status = 200,
                 blob = Inr \<lparr>blobType = ''image/png'',
                             readAs = (\<lambda>t. Some ''data:image/png;base64,iVBORw0KGgo='')\<rparr>\<rparr>
       else Inr \<lparr>ok = False, status = 404, blob = Inl (Error ''body stream already read'')\<rparr>),
     createObjectURL = (\<lambda>file. ''blob:base-image'') \<rparr>"

definition sampleEvents :: "event list" where
  "sampleEvents = [Mount sampleBrowser, VariationsChange 3, Generate (Inr sampleAi)]"

section \<open>The prompt builder: buildPrompt\<close>

subsection \<open>Substrings of a text given by its lines\<close>

lemma sublist_trans: "sublist xs ys \<Longrightarrow> sublist ys zs \<Longrightarrow> sublist xs zs"
  unfolding sublist_def by (metis append.assoc)

text \<open>A text without the character \<open>c\<close> that occurs in \<open>a @ c # b\<close> occurs in \<open>a\<close> or in \<open>b\<close>.\<close>

lemma sublist_sep:
  assumes "c \<notin> set m" and "sublist m (a @ c # b)"
  shows "sublist m a \<or> sublist m b"
proof -
  have pre: "prefix xs (c # b) \<Longrightarrow> set xs \<subseteq> set m \<Longrightarrow> xs = []" for xs
    using assms(1) by (cases xs) auto
  from assms(2) consider "sublist m a" | "sublist m (c # b)"
    | xs1 xs2 where "m = xs1 @ xs2" "suffix xs1 a" "prefix xs2 (c # b)"
    by (auto simp: sublist_append)
  then show ?thesis
  proof cases
    case 2
    then have "prefix m (c # b) \<or> sublist m b" by (simp add: sublist_Cons_right)
    with pre[of m] show ?thesis by auto
  next
    case 3
    with pre[of xs2] have "xs2 = []" by auto
    with 3 show ?thesis by auto
  qed simp
qed

lemma sublist_after_value:
  assumes "c \<notin> set m" and "\<not> sublist m v"
  shows "sublist m (v @ c # rest) \<longleftrightarrow> sublist m rest"
proof
  assume "sublist m (v @ c # rest)"
  with sublist_sep[OF assms(1)] assms(2) show "sublist m rest" by blast
next
  assume "sublist m rest"
  then have "sublist m ((v @ [c]) @ rest)" by (metis sublist_append)
  then show "sublist m (v @ c # rest)" by simp
qed

lemma sublist_joinLines_split:
  "CHR 0x0A \<notin> set m \<Longrightarrow> ls \<noteq> [] \<Longrightarrow> sublist m (joinLines ls) \<Longrightarrow> \<exists>l\<in>set ls. sublist m l"
proof (induction ls rule: joinLines.induct)
  case (3 l k ls)
  from 3(2,4) have "sublist m l \<or> sublist m (joinLines (k # ls))"
    using sublist_sep[of "CHR 0x0A" m l "joinLines (k # ls)"] by simp
  with 3 show ?case by auto
qed auto

lemma not_sublist_joinLines:
  "CHR 0x0A \<notin> set m \<Longrightarrow> ls \<noteq> [] \<Longrightarrow> \<forall>l\<in>set ls. \<not> sublist m l \<Longrightarrow> \<not> sublist m (joinLines ls)"
  using sublist_joinLines_split by blast

lemma line_sublist_joinLines: "l \<in> set ls \<Longrightarrow> sublist l (joinLines ls)"
proof (induction ls rule: joinLines.induct)
  case (3 a k ls)
  show ?case
  proof (cases "l = a")
    case True then show ?thesis by simp
  next
    case False
    with 3 have "sublist l (joinLines (k # ls))" by simp
    then have "sublist l ((a @ [CHR 0x0A]) @ joinLines (k # ls))"
      by (metis sublist_append)
    then show ?thesis by simp
  qed
qed auto

lemma sublist_joinLines_nth:
  "i < length ls \<Longrightarrow> sublist v (ls ! i) \<Longrightarrow> sublist v (joinLines ls)"
  using line_sublist_joinLines[of "ls ! i" ls] sublist_trans by auto

subsection \<open>The legends and the optional clauses\<close>

text \<open>
  Each value of the legends of \<open>colorTheme\<close>, \<open>doors\<close>, \<open>windows\<close>, \<open>frontYard\<close>, \<open>roof\<close>
  and \<open>outdoorFeatures\<close> stands in a fixed line of the template; the number is the
  position of that line in the template.
\<close>

lemma colorTheme_legend:
  "sublist ''Neutral Modern'' (buildPrompt opts)"
  "sublist ''Warm Natural'' (buildPrompt opts)"
  "sublist ''Dark Industrial'' (buildPrompt opts)"
  "sublist ''Tropical Light'' (buildPrompt opts)"
  unfolding buildPrompt_def
  apply (rule sublist_joinLines_nth[where i = 14]; simp add: sublist_Cons_right)
  apply (rule sublist_joinLines_nth[where i = 15]; simp add: sublist_Cons_right)
  apply (rule sublist_joinLines_nth[where i = 16]; simp add: sublist_Cons_right)
  by (rule sublist_joinLines_nth[where i = 17]; simp add: sublist_Cons_right)

lemma doors_legend:
  "sublist ''Narra Wood'' (buildPrompt opts)"
  "sublist ''Steel Security'' (buildPrompt opts)"
  "sublist ''Glass Sliding'' (buildPrompt opts)"
  "sublist ''Double Swing Wood'' (buildPrompt opts)"
  unfolding buildPrompt_def
  apply (rule sublist_joinLines_nth[where i = 20]; simp add: sublist_Cons_right)
  apply (rule sublist_joinLines_nth[where i = 21]; simp add: sublist_Cons_right)
  apply (rule sublist_joinLines_nth[where i = 22]; simp add: sublist_Cons_right)
  by (rule sublist_joinLines_nth[where i = 23]; simp add: sublist_Cons_right)

lemma windows_legend:
  "sublist ''Clear Glass Sliding'' (buildPrompt opts)"
  "sublist ''Tinted Glass'' (buildPrompt opts)"
  "sublist ''Jalousie'' (buildPrompt opts)"
  "sublist ''Awning Windows'' (buildPrompt opts)"
  unfolding buildPrompt_def
  apply (rule sublist_joinLines_nth[where i = 26]; simp add: sublist_Cons_right)
  apply (rule sublist_joinLines_nth[where i = 27]; simp add: sublist_Cons_right)
  apply (rule sublist_joinLines_nth[where i = 28]; simp add: sublist_Cons_right)
  by (rule sublist_joinLines_nth[where i = 29]; simp add: sublist_Cons_right)

lemma frontYard_legend:
  "sublist ''Tropical Garden'' (buildPrompt opts)"
  "sublist ''Modern Tiled Patio'' (buildPrompt opts)"
  "sublist ''Simple Bermuda Grass'' (buildPrompt opts)"
  "sublist ''Gravel & Planters'' (buildPrompt opts)"
  unfolding buildPrompt_def
  apply (rule sublist_joinLines_nth[where i = 32]; simp add: sublist_Cons_right)
  apply (rule sublist_joinLines_nth[where i = 33]; simp add: sublist_Cons_right)
  apply (rule sublist_joinLines_nth[where i = 34]; simp add: sublist_Cons_right)
  by (rule sublist_joinLines_nth[where i = 35]; simp add: sublist_Cons_right)

lemma roof_legend:
  "sublist ''Standard Metal Roof'' (buildPrompt opts)"
  "sublist ''Metal Roof with Solar Panels'' (buildPrompt opts)"
  "sublist ''Clay Tile Roof'' (buildPrompt opts)"
  unfolding buildPrompt_def
  apply (rule sublist_joinLines_nth[where i = 38]; simp add: sublist_Cons_right)
  apply (rule sublist_joinLines_nth[where i = 39]; simp add: sublist_Cons_right)
  by (rule sublist_joinLines_nth[where i = 40]; simp add: sublist_Cons_right)

lemma outdoorFeatures_legend:
  "sublist ''None'' (buildPrompt opts)"
  "sublist ''2-Seater Kape Table'' (buildPrompt opts)"
  "sublist ''4-Seater Outdoor Dining'' (buildPrompt opts)"
  "sublist ''Bamboo Bench'' (buildPrompt opts)"
  "sublist ''Hammock (Duyan)'' (buildPrompt opts)"
  unfolding buildPrompt_def
  apply (rule sublist_joinLines_nth[where i = 43]; simp add: sublist_Cons_right)
  apply (rule sublist_joinLines_nth[where i = 44]; simp add: sublist_Cons_right)
  apply (rule sublist_joinLines_nth[where i = 45]; simp add: sublist_Cons_right)
  apply (rule sublist_joinLines_nth[where i = 46]; simp add: sublist_Cons_right)
  by (rule sublist_joinLines_nth[where i = 47]; simp add: sublist_Cons_right)

lemma landscaping_legend:
  assumes "landscaping opts \<noteq> ''None''"
  shows "sublist ''Minimalist Zen Garden'' (landscapingPrompt opts)"
    "sublist ''Flowering Tropical Paradise'' (landscapingPrompt opts)"
    "sublist ''Rock Garden with Cacti'' (landscapingPrompt opts)"
    "sublist ''Vegetable Patch'' (landscapingPrompt opts)"
  unfolding landscapingPrompt_def if_P[OF assms]
  apply (rule sublist_joinLines_nth[where i = 2]; simp add: sublist_Cons_right)
  apply (rule sublist_joinLines_nth[where i = 3]; simp add: sublist_Cons_right)
  apply (rule sublist_joinLines_nth[where i = 4]; simp add: sublist_Cons_right)
  by (rule sublist_joinLines_nth[where i = 5]; simp add: sublist_Cons_right)

lemma landscapingPrompt_in_prompt: "sublist (landscapingPrompt opts) (buildPrompt opts)"
  unfolding buildPrompt_def
  by (rule sublist_joinLines_nth[where i = 35]; simp add: sublist_Cons_right)

lemma furniturePrompt_in_prompt: "sublist (furniturePrompt opts) (buildPrompt opts)"
  unfolding buildPrompt_def
  by (rule sublist_joinLines_nth[where i = 47]; simp add: sublist_Cons_right)

lemma landscaping_clause:
  assumes "landscaping opts \<noteq> ''None''"
  shows "sublist (''  - **Landscaping Theme:** Within the front yard, introduce a '' @ [CHR 0x27] @
            landscaping opts @ ''' theme.'') (landscapingPrompt opts)"
  unfolding landscapingPrompt_def if_P[OF assms]
  by (rule sublist_joinLines_nth[where i = 1]; simp)

lemma furniture_clause:
  assumes "furniture opts \<noteq> ''None''"
  shows "sublist (furniture opts) (furniturePrompt opts)"
  unfolding furniturePrompt_def if_P[OF assms]
  by (rule sublist_joinLines_nth[where i = 1]; simp add: sublist_Cons_right)

subsection \<open>Where the landscaping clause is absent\<close>

lemma domain_values_without_marker:
  "v \<in> set (colorThemeValues @ doorsValues @ windowsValues @ frontYardValues @ landscapingValues @
      outdoorFeaturesValues @ roofValues @ furnitureValues) \<Longrightarrow>
   \<not> sublist ''Landscaping Theme'' v"
  by (auto simp: colorThemeValues_def doorsValues_def windowsValues_def frontYardValues_def
      landscapingValues_def outdoorFeaturesValues_def roofValues_def furnitureValues_def
      sublist_Cons_right)

lemma furniturePrompt_without_marker:
  assumes "\<not> sublist ''Landscaping Theme'' (furniture opts)"
  shows "\<not> sublist ''Landscaping Theme'' (furniturePrompt opts)"
proof (cases "furniture opts = ''None''")
  case True
  then show ?thesis by (simp add: furniturePrompt_def)
next
  case False
  show ?thesis
    unfolding furniturePrompt_def
    using False assms by (simp add: sublist_Cons_right sublist_after_value)
qed

lemma prompt_without_marker:
  assumes "wellTyped opts" and "landscaping opts = ''None''"
  shows "\<not> sublist ''Landscaping Theme'' (buildPrompt opts)"
proof -
  have v: "\<not> sublist ''Landscaping Theme'' (colorTheme opts)"
    "\<not> sublist ''Landscaping Theme'' (doors opts)"
    "\<not> sublist ''Landscaping Theme'' (windows opts)"
    "\<not> sublist ''Landscaping Theme'' (frontYard opts)"
    "\<not> sublist ''Landscaping Theme'' (roof opts)"
    "\<not> sublist ''Landscaping Theme'' (outdoorFeatures opts)"
    "\<not> sublist ''Landscaping Theme'' (furniture opts)"
    using assms(1) by (simp_all add: wellTyped_def domain_values_without_marker)
  have l: "landscapingPrompt opts = []"
    using assms(2) by (simp add: landscapingPrompt_def)
  note f = furniturePrompt_without_marker[OF v(7)]
  show ?thesis
    unfolding buildPrompt_def
    apply (rule not_sublist_joinLines)
      apply simp
     apply simp
    apply (simp add: sublist_Cons_right sublist_after_value v l f)
    done
qed

lemma initialOptions_without_furniture_value:
  "\<not> sublist ''Wicker Sofa Set'' (buildPrompt initialOptions)"
  unfolding buildPrompt_def
  apply (rule not_sublist_joinLines)
    apply simp
   apply simp
  apply (simp add: sublist_Cons_right initialOptions_def landscapingPrompt_def furniturePrompt_def)
  done

lemma initialOptions_without_landscaping_value:
  "\<not> sublist ''Minimalist Zen Garden'' (buildPrompt initialOptions)"
  unfolding buildPrompt_def
  apply (rule not_sublist_joinLines)
    apply simp
   apply simp
  apply (simp add: sublist_Cons_right initialOptions_def landscapingPrompt_def furniturePrompt_def)
  done

lemma wellTyped_initialOptions: "wellTyped initialOptions"
  by (simp add: wellTyped_def initialOptions_def colorThemeValues_def doorsValues_def
      windowsValues_def frontYardValues_def landscapingValues_def outdoorFeaturesValues_def
      roofValues_def furnitureValues_def)

text \<open>
  C3 as stated fails for \<open>furniture\<close> and for \<open>landscaping\<close>: the prompt of the default
  record, which is well typed, contains neither the furniture value
  \<^verbatim>\<open>Wicker Sofa Set\<close> nor the landscaping value \<^verbatim>\<open>Minimalist Zen Garden\<close>.
\<close>

theorem legend_completeness_counterexample:
  "wellTyped initialOptions \<and>
   ''Wicker Sofa Set'' \<in> set furnitureValues \<and>
   \<not> sublist ''Wicker Sofa Set'' (buildPrompt initialOptions) \<and>
   ''Minimalist Zen Garden'' \<in> set landscapingValues \<and>
   \<not> sublist ''Minimalist Zen Garden'' (buildPrompt initialOptions)"
  using wellTyped_initialOptions initialOptions_without_furniture_value
    initialOptions_without_landscaping_value
  by (simp add: furnitureValues_def landscapingValues_def)

text \<open>
  C3, amended. For every options record, whatever its fields hold, the prompt contains
  every domain value of \<open>colorTheme\<close>, \<open>doors\<close>, \<open>windows\<close>, \<open>frontYard\<close>, \<open>roof\<close> and
  \<open>outdoorFeatures\<close>. The legend of \<open>landscaping\<close> (its values other than
  \<^verbatim>\<open>None\<close>) belongs to the optional landscaping clause and is in the prompt whenever
  \<open>landscaping\<close> is not \<^verbatim>\<open>None\<close>. \<open>furniture\<close> has no legend: the prompt contains its
  selected value when that is not \<^verbatim>\<open>None\<close>.
\<close>

theorem legend_values_in_prompt:
  "(\<forall>v\<in>set (colorThemeValues @ doorsValues @ windowsValues @ frontYardValues @ roofValues @
        outdoorFeaturesValues). sublist v (buildPrompt opts)) \<and>
   (landscaping opts \<noteq> ''None'' \<longrightarrow>
      (\<forall>v\<in>set landscapingValues. v \<noteq> ''None'' \<longrightarrow> sublist v (buildPrompt opts))) \<and>
   (furniture opts \<noteq> ''None'' \<longrightarrow> sublist (furniture opts) (buildPrompt opts))"
proof (intro conjI impI)
  show "\<forall>v\<in>set (colorThemeValues @ doorsValues @ windowsValues @ frontYardValues @ roofValues @
        outdoorFeaturesValues). sublist v (buildPrompt opts)"
    by (simp add: colorThemeValues_def doorsValues_def windowsValues_def frontYardValues_def
        roofValues_def outdoorFeaturesValues_def colorTheme_legend doors_legend windows_legend
        frontYard_legend roof_legend outdoorFeatures_legend)
next
  assume a: "landscaping opts \<noteq> ''None''"
  note l = landscaping_legend[OF a]
  have up: "sublist v (landscapingPrompt opts) \<Longrightarrow> sublist v (buildPrompt opts)" for v
    by (rule sublist_trans[OF _ landscapingPrompt_in_prompt])
  show "\<forall>v\<in>set landscapingValues. v \<noteq> ''None'' \<longrightarrow> sublist v (buildPrompt opts)"
    by (simp add: landscapingValues_def l[THEN up])
next
  assume "furniture opts \<noteq> ''None''"
  then have "sublist (furniture opts) (furniturePrompt opts)" by (rule furniture_clause)
  then show "sublist (furniture opts) (buildPrompt opts)"
    using furniturePrompt_in_prompt by (rule sublist_trans)
qed

theorem legend_values_in_prompt_witness:
  "''Jalousie'' \<in> set (colorThemeValues @ doorsValues @ windowsValues @ frontYardValues @
      roofValues @ outdoorFeaturesValues) \<and>
   sublist ''Jalousie'' (buildPrompt gardenOptions) \<and>
   landscaping gardenOptions \<noteq> ''None'' \<and>
   ''Rock Garden with Cacti'' \<in> set landscapingValues \<and>
   sublist ''Rock Garden with Cacti'' (buildPrompt gardenOptions) \<and>
   furniture gardenOptions = ''Wicker Sofa Set'' \<and>
   sublist ''Wicker Sofa Set'' (buildPrompt gardenOptions)"
proof -
  have a: "''Jalousie'' \<in> set (colorThemeValues @ doorsValues @ windowsValues @ frontYardValues @
      roofValues @ outdoorFeaturesValues)"
    by (simp add: windowsValues_def)
  have b: "landscaping gardenOptions \<noteq> ''None''"
    by (simp add: gardenOptions_def initialOptions_def)
  have c: "''Rock Garden with Cacti'' \<in> set landscapingValues"
    by (simp add: landscapingValues_def)
  have c': "''Rock Garden with Cacti'' \<noteq> ''None''"
    by simp
  have d: "furniture gardenOptions = ''Wicker Sofa Set''"
    by (simp add: gardenOptions_def initialOptions_def)
  have d': "furniture gardenOptions \<noteq> ''None''"
    by (simp add: d)
  note t = legend_values_in_prompt[of gardenOptions]
  have r1: "sublist ''Jalousie'' (buildPrompt gardenOptions)"
    by (rule bspec[OF t[THEN conjunct1] a])
  have r2: "sublist ''Rock Garden with Cacti'' (buildPrompt gardenOptions)"
    by (rule t[THEN conjunct2, THEN conjunct1, THEN mp, OF b, THEN bspec, OF c, THEN mp, OF c'])
  have "sublist (furniture gardenOptions) (buildPrompt gardenOptions)"
    by (rule t[THEN conjunct2, THEN conjunct2, THEN mp, OF d'])
  then have r3: "sublist ''Wicker Sofa Set'' (buildPrompt gardenOptions)"
    by (simp only: d)
  show ?thesis
    apply (insert a r1 b c r2 d r3)
    apply (intro conjI)
          apply assumption+
    done
qed

text \<open>
  C4. For a well-typed record whose \<open>landscaping\<close> is \<^verbatim>\<open>None\<close> the landscaping clause
  is the empty string and the text \<^verbatim>\<open>Landscaping Theme\<close> occurs nowhere in the prompt.
  For a record whose \<open>landscaping\<close> is anything else the prompt contains the clause
  \<^verbatim>\<open>- **Landscaping Theme:** Within the front yard, introduce a '...' theme.\<close> with that
  value between the apostrophes.
\<close>

theorem landscaping_sentinel:
  "(wellTyped opts \<longrightarrow> landscaping opts = ''None'' \<longrightarrow>
      landscapingPrompt opts = [] \<and> \<not> sublist ''Landscaping Theme'' (buildPrompt opts)) \<and>
   (landscaping opts \<noteq> ''None'' \<longrightarrow>
      sublist (''  - **Landscaping Theme:** Within the front yard, introduce a '' @ [CHR 0x27] @
               landscaping opts @ ''' theme.'') (buildPrompt opts))"
proof (intro conjI impI)
  assume "landscaping opts = ''None''"
  then show "landscapingPrompt opts = []" by (simp add: landscapingPrompt_def)
next
  assume "wellTyped opts" "landscaping opts = ''None''"
  then show "\<not> sublist ''Landscaping Theme'' (buildPrompt opts)" by (rule prompt_without_marker)
next
  assume "landscaping opts \<noteq> ''None''"
  then have "sublist (''  - **Landscaping Theme:** Within the front yard, introduce a '' @ [CHR 0x27] @
               landscaping opts @ ''' theme.'') (landscapingPrompt opts)"
    by (rule landscaping_clause)
  then show "sublist (''  - **Landscaping Theme:** Within the front yard, introduce a '' @ [CHR 0x27] @
               landscaping opts @ ''' theme.'') (buildPrompt opts)"
    using landscapingPrompt_in_prompt by (rule sublist_trans)
qed

theorem landscaping_sentinel_witness:
  "wellTyped initialOptions \<and> landscaping initialOptions = ''None'' \<and>
   landscapingPrompt initialOptions = [] \<and>
   \<not> sublist ''Landscaping Theme'' (buildPrompt initialOptions) \<and>
   landscaping gardenOptions = ''Vegetable Patch'' \<and>
   sublist ''  - **Landscaping Theme:** Within the front yard, introduce a 'Vegetable Patch' theme.''
     (buildPrompt gardenOptions)"
proof -
  note w = wellTyped_initialOptions
  have a: "landscaping initialOptions = ''None''" by (simp add: initialOptions_def)
  have b: "landscaping gardenOptions = ''Vegetable Patch''"
    by (simp add: gardenOptions_def initialOptions_def)
  have b': "landscaping gardenOptions \<noteq> ''None''" by (simp add: b)
  note t = landscaping_sentinel[of initialOptions, THEN conjunct1, THEN mp, OF w, THEN mp, OF a]
  note c1 = t[THEN conjunct1] and c2 = t[THEN conjunct2]
  have "sublist (''  - **Landscaping Theme:** Within the front yard, introduce a '' @ [CHR 0x27] @
               landscaping gardenOptions @ ''' theme.'') (buildPrompt gardenOptions)"
    by (rule landscaping_sentinel[of gardenOptions, THEN conjunct2, THEN mp, OF b'])
  then have r: "sublist ''  - **Landscaping Theme:** Within the front yard, introduce a 'Vegetable Patch' theme.''
     (buildPrompt gardenOptions)"
    by (simp only: b append.simps)
  show ?thesis
    apply (insert w a c1 c2 b r)
    apply (intro conjI)
         apply assumption+
    done
qed

section \<open>The orchestrator: generateHouseImage\<close>

lemma fileToPart_sampleFile: "fileToPart sampleFile = Inr samplePart"
  by (simp add: fileToPart_def sampleFile_def samplePart_def)

lemma imageUrlOf_imageResponse: "imageUrlOf (imageResponse d) = Some (''data:image/png;base64,'' @ d)"
  by (simp add: imageUrlOf_def imagePartFromResponse_def imageResponse_def jsString_def)

lemma imageUrlOf_textOnlyResponse: "imageUrlOf textOnlyResponse = None"
  by (simp add: imageUrlOf_def imagePartFromResponse_def textOnlyResponse_def)

lemma upt_3: "[0..<3] = [0, 1, 2]"
  by (simp add: upt_rec)

lemma firstRejection_None: "firstRejection ps = None \<Longrightarrow> ps = map Inr (fulfilled ps)"
  by (induction ps rule: firstRejection.induct) (auto split: option.splits if_splits)

lemma promiseAll_Inr:
  assumes "promiseAll ps = Inr vs"
  shows "length vs = length ps \<and> (\<forall>i<length ps. ps ! i = Inr (vs ! i))"
proof -
  from assms have "firstRejection ps = None" and vs: "vs = fulfilled ps"
    by (auto simp: promiseAll_def split: option.splits)
  then have "ps = map Inr vs" by (simp add: firstRejection_None)
  then show ?thesis by (metis length_map nth_map)
qed

lemma promiseAll_map_Inr: "promiseAll (map Inr vs) = Inr vs"
proof -
  have "firstRejection (map Inr vs) = None" by (induction vs) auto
  moreover have "fulfilled (map Inr vs) = vs" by (induction vs) auto
  ultimately show ?thesis by (simp add: promiseAll_def)
qed

lemma finalImageUrlsFrom_Inr:
  "finalImageUrlsFrom k rs = Inr urls \<Longrightarrow>
     length urls = length rs \<and> (\<forall>i<length rs. imageUrlOf (rs ! i) = Some (urls ! i))"
proof (induction rs arbitrary: k urls)
  case (Cons r rs)
  then obtain u us where us: "imageUrlOf r = Some u" "finalImageUrlsFrom (k + 1) rs = Inr us" "urls = u # us"
    by (auto split: option.splits sum.splits)
  with Cons.IH have "length us = length rs \<and> (\<forall>i<length rs. imageUrlOf (rs ! i) = Some (us ! i))" by blast
  with us show ?case by (auto simp: nth_Cons split: nat.splits)
qed auto



text \<open>The requests that a batch issues: none, or one for each variation.\<close>

lemma generateHouseImage_issued:
  "fst (generateHouseImage client baseImage prompt n) =
    (case client of
       Inl e \<Rightarrow> []
     | Inr ai \<Rightarrow>
        (case fileToPart baseImage of
           Inl e \<Rightarrow> []
         | Inr part \<Rightarrow>
            if n \<ge> 4294967296 then [] else replicate (nat n) (variationRequest part prompt n)))"
  by (simp add: generateHouseImage_def Let_def map_replicate_const split: sum.splits)

text \<open>The batch when the client is there, the image is readable and every call fulfils.\<close>

lemma generateHouseImage_fulfilled:
  assumes "fileToPart baseImage = Inr part" and "n < 4294967296"
    and "\<forall>i<nat n. ai i (variationRequest part prompt n) = Inr (responses i)"
  shows "generateHouseImage (Inr ai) baseImage prompt n =
    (replicate (nat n) (variationRequest part prompt n),
     case finalImageUrlsFrom 0 (map responses [0..<nat n]) of
       Inl e \<Rightarrow> Inl e
     | Inr finalImageUrls \<Rightarrow>
        if int (length finalImageUrls) \<noteq> n
        then Inl (Error ''The number of generated images did not match the requested count.'')
        else Inr finalImageUrls)"
proof -
  have issued: "map (\<lambda>index. variationRequest part prompt n) [0..<nat n]
      = replicate (nat n) (variationRequest part prompt n)"
    by (simp add: map_replicate_const)
  have "map (\<lambda>index. ai index (replicate (nat n) (variationRequest part prompt n) ! index)) [0..<nat n]
      = map Inr (map responses [0..<nat n])"
    using assms(3) by simp
  then have pa: "promiseAll (map (\<lambda>index. ai index (replicate (nat n) (variationRequest part prompt n) ! index)) [0..<nat n])
      = Inr (map responses [0..<nat n])"
    by (simp only: promiseAll_map_Inr)
  show ?thesis
    using assms(1,2) by (simp add: generateHouseImage_def Let_def issued pa)
qed

lemma generateHouseImage_sampleAi:
  "generateHouseImage (Inr sampleAi) sampleFile p 3 =
     (replicate 3 (variationRequest samplePart p 3), Inr sampleUrls)"
proof -
  have "\<forall>i<nat 3. sampleAi i (variationRequest samplePart p 3) = Inr (sampleResponses i)"
    by (simp add: sampleAi_def)
  from generateHouseImage_fulfilled[where ai = sampleAi and responses = sampleResponses,
      OF fileToPart_sampleFile _ this]
  show ?thesis
    by (simp add: upt_3 sampleResponses_def imageUrlOf_imageResponse sampleUrls_def)
qed

lemma generateHouseImage_sample:
  "generateHouseImage (Inr sampleAi) sampleFile ''A house'' 3 = (sampleIssued, Inr sampleUrls)"
  by (simp add: generateHouseImage_sampleAi sampleIssued_def variationRequest_def)

lemma generateHouseImage_refusingAi:
  "generateHouseImage (Inr refusingAi) sampleFile p 3 =
     (replicate 3 (variationRequest samplePart p 3),
      Inl (Error ''The AI model did not return an image for variation 2.''))"
proof -
  define rs where "rs = (\<lambda>i. if i = 1 then textOnlyResponse else sampleResponses i)"
  have "\<forall>i<nat 3. refusingAi i (variationRequest samplePart p 3) = Inr (rs i)"
    by (simp add: refusingAi_def rs_def)
  from generateHouseImage_fulfilled[where ai = refusingAi and responses = rs,
      OF fileToPart_sampleFile _ this]
  show ?thesis
    by (simp add: upt_3 rs_def sampleResponses_def imageUrlOf_imageResponse
        imageUrlOf_textOnlyResponse decimal.simps[of "Suc (Suc 0)"])
qed

text \<open>
  C1. When \<open>generateHouseImage\<close> succeeds, for any client, base image, prompt and
  variation count \<open>n\<close>, the client was constructed, the function returns exactly \<open>n\<close>
  result handles, as many as requests were issued, and the handle at index \<open>i\<close> is the
  data URI extracted from the response that the generator gave to the request issued at
  index \<open>i\<close>.
\<close>

theorem generateHouseImage_count_and_alignment:
  assumes "generateHouseImage client baseImage prompt n = (issued, Inr finalImageUrls)"
  shows "\<exists>ai. client = Inr ai \<and>
    int (length finalImageUrls) = n \<and> length issued = length finalImageUrls \<and>
    (\<forall>i<length finalImageUrls. \<exists>response.
        ai i (issued ! i) = Inr response \<and> imageUrlOf response = Some (finalImageUrls ! i))"
proof -
  from assms obtain ai where ai: "client = Inr ai"
    by (auto simp: generateHouseImage_def split: sum.splits)
  from assms ai obtain part where part: "fileToPart baseImage = Inr part"
    by (auto simp: generateHouseImage_def split: sum.splits)
  from assms ai part have small: "\<not> n \<ge> 4294967296"
    by (auto simp: generateHouseImage_def split: if_splits)
  define promises where "promises = map (\<lambda>index. ai index (issued ! index)) [0..<length issued]"
  from assms ai part small
  have issued: "issued = map (\<lambda>index. variationRequest part prompt n) [0..<nat n]"
    by (auto simp: generateHouseImage_def Let_def)
  from assms ai part small issued obtain responses where
    r: "promiseAll promises = Inr responses"
       "finalImageUrlsFrom 0 responses = Inr finalImageUrls"
       "int (length finalImageUrls) = n"
    unfolding promises_def
    by (auto simp: generateHouseImage_def Let_def split: sum.splits if_splits)
  from promiseAll_Inr[OF r(1)] have p: "length responses = length issued"
    "\<forall>i<length issued. ai i (issued ! i) = Inr (responses ! i)"
    by (auto simp: promises_def)
  from finalImageUrlsFrom_Inr[OF r(2)] have f: "length finalImageUrls = length responses"
    "\<forall>i<length responses. imageUrlOf (responses ! i) = Some (finalImageUrls ! i)"
    by auto
  from r(3) p f have "int (length finalImageUrls) = n \<and> length issued = length finalImageUrls \<and>
    (\<forall>i<length finalImageUrls. \<exists>response.
        ai i (issued ! i) = Inr response \<and> imageUrlOf response = Some (finalImageUrls ! i))"
    by auto
  with ai show ?thesis by blast
qed

theorem generateHouseImage_count_and_alignment_witness:
  "generateHouseImage (Inr sampleAi) sampleFile ''A house'' 3 = (sampleIssued, Inr sampleUrls) \<and>
   int (length sampleUrls) = 3 \<and> length sampleIssued = length sampleUrls \<and>
   sampleAi 2 (sampleIssued ! 2) = Inr (sampleResponses 2) \<and>
   imageUrlOf (sampleResponses 2) = Some (sampleUrls ! 2)"
proof -
  note h = generateHouseImage_sample
  from generateHouseImage_count_and_alignment[OF h] obtain ai where
    t: "Inr sampleAi = (Inr ai :: Client)"
      "int (length sampleUrls) = 3" "length sampleIssued = length sampleUrls"
      "\<forall>i<length sampleUrls. \<exists>response.
         ai i (sampleIssued ! i) = Inr response \<and> imageUrlOf response = Some (sampleUrls ! i)"
    by blast
  from t(1) have ai: "ai = sampleAi" by simp
  have "2 < length sampleUrls" by (simp add: sampleUrls_def)
  with t(4) ai have "\<exists>response.
      sampleAi 2 (sampleIssued ! 2) = Inr response \<and> imageUrlOf response = Some (sampleUrls ! 2)"
    by blast
  then have "sampleAi 2 (sampleIssued ! 2) = Inr (sampleResponses 2) \<and>
      imageUrlOf (sampleResponses 2) = Some (sampleUrls ! 2)"
    by (auto simp: sampleAi_def)
  with h t(2,3) show ?thesis by blast
qed



text \<open>
  C5. When the base image is readable: for the variation count 1 the orchestrator issues
  one request, whose text is the input prompt itself. For a count \<open>n > 1\<close> every request
  it issues, under any client, carries the input prompt followed by the fixed variation
  instruction; below \<open>2 ^ 32\<close> these are \<open>n\<close> equal requests, and from \<open>2 ^ 32\<close> on,
  where the array of the calls cannot be made, there is none.
\<close>

theorem generateHouseImage_request_text:
  assumes "fileToPart baseImage = Inr part"
  shows "(n = 1 \<longrightarrow> fst (generateHouseImage (Inr ai) baseImage prompt n) =
            [\<lparr>model = ''gemini-2.5-flash-image'',
              contents = [part, \<lparr>inlineData = None, text' = Some prompt\<rparr>],
              responseModalities = [''IMAGE'']\<rparr>]) \<and>
         (1 < n \<longrightarrow> (\<forall>r\<in>set (fst (generateHouseImage client baseImage prompt n)). r =
             \<lparr>model = ''gemini-2.5-flash-image'',
              contents = [part, \<lparr>inlineData = None, text' = Some (prompt @
                ''\<newline>\<newline>**Variation Instruction:** Generate a unique, creative variation based on the above criteria. Show a different interpretation.'')\<rparr>],
              responseModalities = [''IMAGE'']\<rparr>)) \<and>
         (1 < n \<and> n < 4294967296 \<longrightarrow>
            length (fst (generateHouseImage (Inr ai) baseImage prompt n)) = nat n) \<and>
         (4294967296 \<le> n \<longrightarrow> fst (generateHouseImage client baseImage prompt n) = [])"
  using assms
  by (auto simp: generateHouseImage_issued variationRequest_def split: sum.splits)

theorem generateHouseImage_request_text_witness:
  "fileToPart sampleFile = Inr samplePart \<and>
   fst (generateHouseImage (Inr sampleAi) sampleFile ''A house'' 1) =
     [\<lparr>model = ''gemini-2.5-flash-image'',
       contents = [samplePart, \<lparr>inlineData = None, text' = Some ''A house''\<rparr>],
       responseModalities = [''IMAGE'']\<rparr>] \<and>
   fst (generateHouseImage (Inr sampleAi) sampleFile ''A house'' 3) = sampleIssued \<and>
   sampleIssued ! 2 =
     \<lparr>model = ''gemini-2.5-flash-image'',
      contents = [samplePart, \<lparr>inlineData = None, text' = Some (''A house'' @
        ''\<newline>\<newline>**Variation Instruction:** Generate a unique, creative variation based on the above criteria. Show a different interpretation.'')\<rparr>],
      responseModalities = [''IMAGE'']\<rparr> \<and>
   length (fst (generateHouseImage (Inr sampleAi) sampleFile ''A house'' 3)) = nat 3 \<and>
   fst (generateHouseImage (Inr sampleAi) sampleFile ''A house'' 4294967296) = []"
proof -
  note p = fileToPart_sampleFile
  note t1 = generateHouseImage_request_text[OF p, of 1 sampleAi "''A house''" "Inr sampleAi"]
  note t3 = generateHouseImage_request_text[OF p, of 3 sampleAi "''A house''" "Inr sampleAi"]
  note tb = generateHouseImage_request_text[OF p, of 4294967296 sampleAi "''A house''" "Inr sampleAi"]
  have i3: "fst (generateHouseImage (Inr sampleAi) sampleFile ''A house'' 3) = sampleIssued"
    by (simp add: generateHouseImage_sample)
  have m: "sampleIssued ! 2 \<in> set (fst (generateHouseImage (Inr sampleAi) sampleFile ''A house'' 3))"
    by (simp add: i3 sampleIssued_def)
  from t1 have a: "fst (generateHouseImage (Inr sampleAi) sampleFile ''A house'' 1) =
     [\<lparr>model = ''gemini-2.5-flash-image'',
       contents = [samplePart, \<lparr>inlineData = None, text' = Some ''A house''\<rparr>],
       responseModalities = [''IMAGE'']\<rparr>]"
    by simp
  from t3 m have b: "sampleIssued ! 2 =
     \<lparr>model = ''gemini-2.5-flash-image'',
      contents = [samplePart, \<lparr>inlineData = None, text' = Some (''A house'' @
        ''\<newline>\<newline>**Variation Instruction:** Generate a unique, creative variation based on the above criteria. Show a different interpretation.'')\<rparr>],
      responseModalities = [''IMAGE'']\<rparr>"
    by simp
  from t3 have c: "length (fst (generateHouseImage (Inr sampleAi) sampleFile ''A house'' 3)) = nat 3"
    by simp
  from tb have d: "fst (generateHouseImage (Inr sampleAi) sampleFile ''A house'' 4294967296) = []"
    by simp
  show ?thesis
    apply (insert p a i3 b c d)
    apply (intro conjI)
         apply assumption+
    done
qed

section \<open>The key guard: handleOptionChange\<close>

lemma handleOptionChange_known_field:
  "options (handleOptionChange ''colorTheme'' v s) = (options s)\<lparr>colorTheme := v\<rparr>"
  "options (handleOptionChange ''doors'' v s) = (options s)\<lparr>doors := v\<rparr>"
  "options (handleOptionChange ''windows'' v s) = (options s)\<lparr>windows := v\<rparr>"
  "options (handleOptionChange ''frontYard'' v s) = (options s)\<lparr>frontYard := v\<rparr>"
  "options (handleOptionChange ''landscaping'' v s) = (options s)\<lparr>landscaping := v\<rparr>"
  "options (handleOptionChange ''outdoorFeatures'' v s) = (options s)\<lparr>outdoorFeatures := v\<rparr>"
  "options (handleOptionChange ''roof'' v s) = (options s)\<lparr>roof := v\<rparr>"
  "options (handleOptionChange ''furniture'' v s) = (options s)\<lparr>furniture := v\<rparr>"
  by (simp_all add: handleOptionChange_def isCustomizationKey_def hasProperty_def
      hasOwnProperty_def fieldNames_def spreadWith_def)

lemma handleOptionChange_rejected:
  "name \<notin> set fieldNames \<Longrightarrow> name \<notin> set objectPrototypeKeys \<Longrightarrow> handleOptionChange name v s = s"
  by (simp add: handleOptionChange_def isCustomizationKey_def hasProperty_def hasOwnProperty_def
      initialOptions_def)

text \<open>
  C6, at the key \<^verbatim>\<open>toString\<close>. The key is none of the eight field names, yet the guard
  accepts it, because \<^verbatim>\<open>in\<close> also finds the properties that \<^verbatim>\<open>initialOptions\<close>
  inherits; the update then stores the value as a new own property of the options object,
  so the record after the update differs from the record before.
\<close>

theorem handleOptionChange_inherited_key:
  "''toString'' \<notin> set fieldNames \<and> isCustomizationKey ''toString'' \<and>
   otherProps (options initialState) ''toString'' = None \<and>
   otherProps (options (handleOptionChange ''toString'' ''x'' initialState)) ''toString'' = Some ''x'' \<and>
   options (handleOptionChange ''toString'' ''x'' initialState) \<noteq> options initialState"
proof -
  have a: "''toString'' \<notin> set fieldNames" by (simp add: fieldNames_def)
  have b: "isCustomizationKey ''toString''"
    by (simp add: isCustomizationKey_def hasProperty_def objectPrototypeKeys_def)
  have c: "otherProps (options initialState) ''toString'' = None"
    by (simp add: initialState_def initialOptions_def)
  have d: "otherProps (options (handleOptionChange ''toString'' ''x'' initialState)) ''toString'' = Some ''x''"
    by (simp add: handleOptionChange_def b spreadWith_def)
  from c d have "options (handleOptionChange ''toString'' ''x'' initialState) \<noteq> options initialState"
    by auto
  with a b c d show ?thesis by blast
qed

section \<open>The handlers: handleGenerate, handleReset\<close>

text \<open>
  C7. Called in a state without a base image, \<open>handleGenerate\<close> issues no request to the
  generator (and revokes no URL); it only sets the error message
  \<^verbatim>\<open>Base image is not loaded. Cannot generate a new design.\<close>
\<close>

theorem handleGenerate_without_base_image:
  "baseImageFile s = None \<Longrightarrow>
   handleGenerate client s =
     (\<lparr>requests = [], revoked = []\<rparr>,
      s\<lparr>error := Some ''Base image is not loaded. Cannot generate a new design.''\<rparr>)"
  by (simp add: handleGenerate_def)

theorem handleGenerate_without_base_image_witness:
  "baseImageFile initialState = None \<and>
   handleGenerate (Inr sampleAi) initialState =
     (\<lparr>requests = [], revoked = []\<rparr>,
      initialState\<lparr>error := Some ''Base image is not loaded. Cannot generate a new design.''\<rparr>)"
proof -
  have h: "baseImageFile initialState = None" by (simp add: initialState_def)
  from handleGenerate_without_base_image[OF h, of "Inr sampleAi"] h show ?thesis by simp
qed

subsection \<open>Result handles in the runs of the component\<close>

text \<open>What \<open>handleGenerate\<close> leaves in the state when the base image is loaded.\<close>

lemma handleGenerate_loaded:
  assumes "baseImageFile s = Some file"
  shows "generatedImageUrls (snd (handleGenerate client s)) =
      (case snd (generateHouseImage client file (buildPrompt (options s)) (numberOfVariations s)) of
         Inr finalImageUrls \<Rightarrow> finalImageUrls | Inl err \<Rightarrow> [])"
    and "error (snd (handleGenerate client s)) =
      (case snd (generateHouseImage client file (buildPrompt (options s)) (numberOfVariations s)) of
         Inr finalImageUrls \<Rightarrow> None
       | Inl err \<Rightarrow> Some (''Failed to generate the image. '' @ errorMessage err))"
    and "baseImageFile (snd (handleGenerate client s)) = Some file"
  using assms
  by (simp_all add: handleGenerate_def Let_def case_prod_unfold split: sum.splits)

text \<open>
  In every state of a run, no base image means no result handles: the effect that loads
  the image never unsets it, and the handlers that set result handles do so past their
  guard only.
\<close>

lemma step_without_image:
  assumes "baseImageFile s = None \<longrightarrow> generatedImageUrls s = []"
  shows "baseImageFile (step e s) = None \<longrightarrow> generatedImageUrls (step e s) = []"
proof (cases e)
  case (Mount browser)
  with assms show ?thesis
    by (auto simp: fetchBaseImage_def Let_def split: sum.splits option.splits prod.splits if_splits)
next
  case (OptionChange name v)
  with assms show ?thesis by (simp add: handleOptionChange_def)
next
  case (BudgetChange b)
  with assms show ?thesis by (simp add: setBudget_def)
next
  case (VariationsChange n)
  with assms show ?thesis by (simp add: setNumberOfVariations_def)
next
  case (Generate client)
  with assms show ?thesis
    by (auto simp: handleGenerate_def Let_def case_prod_unfold split: option.splits sum.splits)
next
  case (GenerateBaseViews client)
  with assms show ?thesis
    by (auto simp: handleGenerateBaseViews_def Let_def case_prod_unfold split: option.splits sum.splits)
next
  case Reset
  with assms show ?thesis by (simp add: handleReset_def)
qed

lemma run_snoc: "run (events @ [e]) = step e (run events)"
  by (simp add: run_def)

lemma run_without_image:
  "baseImageFile (run events) = None \<longrightarrow> generatedImageUrls (run events) = []"
proof (induction events rule: rev_induct)
  case Nil
  show ?case by (simp add: run_def initialState_def)
next
  case (snoc e events)
  then show ?case unfolding run_snoc by (rule step_without_image)
qed

lemma run_sampleEvents:
  "baseImageFile (run sampleEvents) = Some sampleFile"
  "numberOfVariations (run sampleEvents) = 3"
  "generatedImageUrls (run sampleEvents) = sampleUrls"
proof -
  have loaded: "fetchBaseImage sampleBrowser initialState =
      initialState\<lparr>baseImageFile := Some sampleFile, baseImageUrl := ''blob:base-image''\<rparr>"
    by (simp add: fetchBaseImage_def Let_def pathsToTry_def sampleBrowser_def lastPiece_def
        sampleFile_def initialState_def)
  define s where "s = setNumberOfVariations 3 (fetchBaseImage sampleBrowser initialState)"
  have s: "baseImageFile s = Some sampleFile" "numberOfVariations s = 3"
    by (simp_all add: s_def loaded setNumberOfVariations_def)
  have r: "run sampleEvents = snd (handleGenerate (Inr sampleAi) s)"
    by (simp add: run_def sampleEvents_def s_def)
  show "baseImageFile (run sampleEvents) = Some sampleFile"
    unfolding r by (rule handleGenerate_loaded(3)[OF s(1)])
  show "generatedImageUrls (run sampleEvents) = sampleUrls"
    unfolding r handleGenerate_loaded(1)[OF s(1)] s(2) generateHouseImage_sampleAi by simp
  show "numberOfVariations (run sampleEvents) = 3"
    unfolding r using s
    by (simp add: handleGenerate_def Let_def case_prod_unfold split: sum.splits)
qed

text \<open>
  C8. In every state that a run of the component reaches, a generation attempt that fails
  (the precondition failure for a missing base image included: \<open>handleGenerate\<close> leaves
  an error) leaves no result handle: the catch branch clears them, and where the guard
  returns there is none.
\<close>

theorem handleGenerate_failure_clears_results:
  assumes "error (snd (handleGenerate client (run events))) \<noteq> None"
  shows "generatedImageUrls (snd (handleGenerate client (run events))) = []"
proof (cases "baseImageFile (run events)")
  case None
  with run_without_image[of events] have "generatedImageUrls (run events) = []" by blast
  with None show ?thesis by (simp add: handleGenerate_def)
next
  case (Some f)
  from assms show ?thesis
    unfolding handleGenerate_loaded(1,2)[OF Some] by (simp split: sum.splits)
qed

theorem handleGenerate_failure_clears_results_witness:
  "generatedImageUrls (run sampleEvents) = sampleUrls \<and>
   error (snd (handleGenerate (Inr refusingAi) (run sampleEvents))) =
     Some ''Failed to generate the image. The AI model did not return an image for variation 2.'' \<and>
   generatedImageUrls (snd (handleGenerate (Inr refusingAi) (run sampleEvents))) = [] \<and>
   error (snd (handleGenerate (Inr sampleAi) (run []))) =
     Some ''Base image is not loaded. Cannot generate a new design.'' \<and>
   generatedImageUrls (snd (handleGenerate (Inr sampleAi) (run []))) = []"
proof -
  note r = run_sampleEvents
  have a: "error (snd (handleGenerate (Inr refusingAi) (run sampleEvents))) =
     Some ''Failed to generate the image. The AI model did not return an image for variation 2.''"
    unfolding handleGenerate_loaded(2)[OF r(1)] r(2) generateHouseImage_refusingAi
    by (simp add: errorMessage_def)
  then have a': "error (snd (handleGenerate (Inr refusingAi) (run sampleEvents))) \<noteq> None"
    by simp
  have b: "error (snd (handleGenerate (Inr sampleAi) (run []))) =
     Some ''Base image is not loaded. Cannot generate a new design.''"
    by (simp add: run_def initialState_def handleGenerate_def)
  then have b': "error (snd (handleGenerate (Inr sampleAi) (run []))) \<noteq> None"
    by simp
  note c = handleGenerate_failure_clears_results[OF a']
  note d = handleGenerate_failure_clears_results[OF b']
  show ?thesis
    apply (insert r(3) a c b d)
    apply (intro conjI)
        apply assumption+
    done
qed

text \<open>
  C9. The budget has no influence on the prompt: two states that differ in the budget
  only render the same prompt, and \<open>handleGenerate\<close> issues the same requests from both.
\<close>

theorem budget_noninterference:
  "buildPrompt (options (s\<lparr>budget := b1\<rparr>)) = buildPrompt (options (s\<lparr>budget := b2\<rparr>)) \<and>
   buildPrompt (options (setBudget b1 s)) = buildPrompt (options (setBudget b2 s)) \<and>
   fst (handleGenerate client (setBudget b1 s)) = fst (handleGenerate client (setBudget b2 s))"
  by (simp add: setBudget_def handleGenerate_def Let_def split: option.splits prod.splits sum.splits)

text \<open>
  C10. \<open>handleReset\<close> sets the options to \<open>initialOptions\<close>, the result handles to the
  empty list and the error to none; the budget, the number of variations, the base image
  (file and URL) and the loading flag stay as they were.
\<close>

theorem handleReset_frame:
  "options (snd (handleReset s)) = initialOptions \<and>
   generatedImageUrls (snd (handleReset s)) = [] \<and>
   error (snd (handleReset s)) = None \<and>
   budget (snd (handleReset s)) = budget s \<and>
   numberOfVariations (snd (handleReset s)) = numberOfVariations s \<and>
   baseImageFile (snd (handleReset s)) = baseImageFile s \<and>
   baseImageUrl (snd (handleReset s)) = baseImageUrl s \<and>
   isLoading (snd (handleReset s)) = isLoading s"
  by (simp add: handleReset_def)

end
